theory Spec2Isabelle
  imports Complex_Main "HOL-Library.Word" "HOL-Library.AList" "HOL-Library.Sublist"
begin

unbundle bit_operations_syntax

section \<open>Python values, dictionaries and exceptions\<close>

text \<open>
  The program keeps its state in dictionaries. A slot of a dictionary is either absent
  (\<open>Missing\<close>, so that \<open>d[k]\<close> raises KeyError and \<open>d.get(k, dflt)\<close> gives the
  default), holds Python's \<open>None\<close> (\<open>IsNone\<close>), or holds a value of the type the
  writers of that slot store there.
\<close>

datatype 'a entry = Missing | IsNone | Val 'a

datatype error = KeyError | TypeError | AttributeError | IndexError | OverflowError

text \<open>\<open>d.get(k, False)\<close> read as a condition.\<close>

fun truthy :: "bool entry \<Rightarrow> bool" where
  "truthy (Val b) = b"
| "truthy IsNone = False"
| "truthy Missing = False"

text \<open>
  A decoded field value: a Python \<open>int\<close>, or the \<open>float\<close> that \<open>raw / d\<close> yields,
  represented by the exact quotient (true division of two ints is correctly rounded, so
  the float is determined by the quotient).
\<close>

datatype val = IntV int | FloatV rat

type_synonym byte = "8 word"

type_synonym fields = "(string \<times> val) list"

text \<open>Python's \<open>needle in hay\<close> on strings.\<close>

fun str_contains :: "string \<Rightarrow> string \<Rightarrow> bool" where
  "str_contains needle [] = (needle = [])"
| "str_contains needle (c # cs) = (prefix needle (c # cs) \<or> str_contains needle cs)"

text \<open>\<open>d.update(other)\<close>: later keys overwrite in place, new keys are appended.\<close>

definition dict_update :: "('k \<times> 'v) list \<Rightarrow> ('k \<times> 'v) list \<Rightarrow> ('k \<times> 'v) list" where
  "dict_update d other = fold (\<lambda>kv acc. AList.update (fst kv) (snd kv) acc) other d"

section \<open>Session state (data\_handler.py, device\_test.py, is\_yafit\_interactive.py)\<close>

text \<open>
  \<open>resistance_tracking\<close>: the dictionary the decoder and \<open>send_control_command\<close>
  share. data\_handler.py starts it as \<open>{}\<close> (every slot \<open>Missing\<close>);
  is\_yafit\_interactive.py installs the six-key dictionary \<open>initial_tracking\<close>.
\<close>

record resistance_tracking =
  last_resistance :: "int entry"
  expected_resistance :: "int entry"
  resistance_change_detected :: "bool entry"
  command_sent_time :: "rat entry"
  last_command_type :: "string entry"
  resistance_command_pending :: "bool entry"

definition empty_tracking :: resistance_tracking where
  "empty_tracking = \<lparr>last_resistance = Missing, expected_resistance = Missing,
     resistance_change_detected = Missing, command_sent_time = Missing,
     last_command_type = Missing, resistance_command_pending = Missing\<rparr>"

definition initial_tracking :: resistance_tracking where
  "initial_tracking = \<lparr>last_resistance = IsNone, expected_resistance = IsNone,
     resistance_change_detected = Val False, command_sent_time = IsNone,
     last_command_type = IsNone, resistance_command_pending = Val False\<rparr>"

text \<open>
  The verdict strings of analyze\_result.py and device\_test.py are Korean text; each
  constructor stands for one of them, in the spec's names:
  \<open>Impossible\<close> (U+BD88 U+AC00 U+B2A5), \<open>Unverifiable_Custom_Protocol\<close>,
  \<open>Vendor_App_Required\<close> (set by device\_test.py only), \<open>Partial\<close>,
  \<open>Partial_Fixable\<close>, \<open>Full\<close>; \<open>Unlisted s\<close> is any other string, such as the
  initial \<open>''''\<close>.
\<close>

datatype level = Impossible | Unverifiable_Custom_Protocol | Vendor_App_Required
  | Partial | Partial_Fixable | Full | Unlisted string

text \<open>
  The protocol strings: the two standard ones, the three custom ones, and any other
  string (\<open>UNKNOWN\<close>, the empty string, ...).
\<close>

datatype protocol = FTMS_standard | CSC_standard | MOBI_custom | REBORN_custom | TACX_custom
  | Other_protocol string

text \<open>The justification strings analyze\_test\_results writes, one constructor each.\<close>

datatype reason =
    Connection_failed
  | Essential_data_not_found
  | Custom_protocol_unverifiable protocol
  | Unsupported_protocol
  | CSC_speed_cadence_only
  | Speed_cadence_and_sim_ok
  | Resistance_changes_by_itself
  | Sim_mode_not_supported
  | Speed_or_cadence_not_detected
  | Basic_requirements_not_met
  | Analysis_error error
  | Other_reason string

record device_info =
  services :: "string list entry"

text \<open>
  \<open>test_results\<close>, the observation record. \<open>other_keys\<close> lists the keys present
  that no modelled function reads (support\_ranges, control\_tests, power\_control, ...):
  they matter only for whether the dictionary is empty.
\<close>

record test_results =
  connection_status :: "bool entry"
  device_info :: "device_info entry"
  protocol_type :: "protocol entry"
  features_supported :: "(string \<times> bool) list entry"
  data_fields_detected :: "fields entry"
  control_commands_tested :: "(string \<times> bool) list entry"
  sim_mode_support :: "bool entry"
  resistance_control :: "bool entry"
  compatibility_level :: "level entry"
  issues_found :: "string list entry"
  reasons :: "reason list entry"
  other_keys :: "string list"

definition empty_results :: test_results where
  "empty_results = \<lparr>connection_status = Missing, device_info = Missing,
     protocol_type = Missing, features_supported = Missing, data_fields_detected = Missing,
     control_commands_tested = Missing, sim_mode_support = Missing, resistance_control = Missing, compatibility_level = Missing,
     issues_found = Missing, reasons = Missing, other_keys = []\<rparr>"

text \<open>The dictionary is\_yafit\_interactive.py builds before a session.\<close>

definition initial_results :: test_results where
  "initial_results = \<lparr>connection_status = Val False,
     device_info = Val \<lparr>services = Missing\<rparr>,
     protocol_type = Val (Other_protocol ''''), features_supported = Val [],
     data_fields_detected = Val [], control_commands_tested = Val [],
     sim_mode_support = Val False, resistance_control = Val False,
     compatibility_level = Val (Unlisted ''''), issues_found = Val [], reasons = Val [],
     other_keys = [''support_ranges'', ''control_tests'', ''power_control'']\<rparr>"

section \<open>The flag decoder: process\_indoor\_bike\_data\<close>

text \<open>\<open>int.from_bytes(bs, byteorder='little')\<close> and its \<open>signed=True\<close> variant.\<close>

fun from_bytes_le :: "byte list \<Rightarrow> nat" where
  "from_bytes_le [] = 0"
| "from_bytes_le (b # bs) = unat b + 256 * from_bytes_le bs"

definition from_bytes_le_signed :: "byte list \<Rightarrow> int" where
  "from_bytes_le_signed bs =
     (let n = int (from_bytes_le bs); w = 8 * length bs
      in if 0 < w \<and> 2 ^ (w - 1) \<le> n then n - 2 ^ w else n)"

text \<open>\<open>data[i:j]\<close> for \<open>0 \<le> i \<le> j\<close>: never raises, shorter when out of range.\<close>

definition slice :: "'a list \<Rightarrow> nat \<Rightarrow> nat \<Rightarrow> 'a list" where
  "slice xs i j = take (j - i) (drop i xs)"

text \<open>
  How a field's bytes become its value: \<open>int.from_bytes(...) / d\<close>, a signed or an
  unsigned \<open>int.from_bytes\<close>, or the single indexed byte \<open>data[index]\<close> (heart rate),
  the one read that raises IndexError when out of range.
\<close>

datatype codec = Unsigned_div nat | Signed_int | Unsigned_int | Single_byte

fun read_value :: "codec \<Rightarrow> byte list \<Rightarrow> nat \<Rightarrow> nat \<Rightarrow> error + val" where
  "read_value (Unsigned_div d) data i w =
     Inr (FloatV (of_nat (from_bytes_le (slice data i (i + w))) / of_nat d))"
| "read_value Signed_int data i w = Inr (IntV (from_bytes_le_signed (slice data i (i + w))))"
| "read_value Unsigned_int data i w = Inr (IntV (int (from_bytes_le (slice data i (i + w)))))"
| "read_value Single_byte data i w =
     (if i < length data then Inr (IntV (int (unat (data ! i)))) else Inl IndexError)"

text \<open>
  One row per \<open>if flags & mask:\<close> block of the decoder, in source order. Only the
  first block (speed) tests for the bit being clear.
\<close>

record field_spec =
  f_mask :: nat
  f_when_clear :: bool
  f_width :: nat
  f_key :: string
  f_codec :: codec

definition field_table :: "field_spec list" where
  "field_table =
    [\<lparr>f_mask = 0x01, f_when_clear = True, f_width = 2, f_key = ''speed'', f_codec = Unsigned_div 100\<rparr>,
     \<lparr>f_mask = 0x02, f_when_clear = False, f_width = 2, f_key = ''avg_speed'', f_codec = Unsigned_div 100\<rparr>,
     \<lparr>f_mask = 0x04, f_when_clear = False, f_width = 2, f_key = ''cadence'', f_codec = Unsigned_div 2\<rparr>,
     \<lparr>f_mask = 0x08, f_when_clear = False, f_width = 2, f_key = ''avg_cadence'', f_codec = Unsigned_div 2\<rparr>,
     \<lparr>f_mask = 0x10, f_when_clear = False, f_width = 3, f_key = ''distance'', f_codec = Unsigned_div 10\<rparr>,
     \<lparr>f_mask = 0x20, f_when_clear = False, f_width = 2, f_key = ''resistance'', f_codec = Signed_int\<rparr>,
     \<lparr>f_mask = 0x40, f_when_clear = False, f_width = 2, f_key = ''power'', f_codec = Signed_int\<rparr>,
     \<lparr>f_mask = 0x80, f_when_clear = False, f_width = 2, f_key = ''avg_power'', f_codec = Signed_int\<rparr>,
     \<lparr>f_mask = 0x100, f_when_clear = False, f_width = 2, f_key = ''energy'', f_codec = Unsigned_int\<rparr>,
     \<lparr>f_mask = 0x200, f_when_clear = False, f_width = 1, f_key = ''heart_rate'', f_codec = Single_byte\<rparr>,
     \<lparr>f_mask = 0x400, f_when_clear = False, f_width = 2, f_key = ''met'', f_codec = Unsigned_div 100\<rparr>,
     \<lparr>f_mask = 0x800, f_when_clear = False, f_width = 2, f_key = ''elapsed_time'', f_codec = Unsigned_int\<rparr>,
     \<lparr>f_mask = 0x1000, f_when_clear = False, f_width = 2, f_key = ''remaining_time'', f_codec = Unsigned_int\<rparr>]"

text \<open>
  The presence test: \<open>(flags & 0x01) == 0\<close> for speed, \<open>flags & mask\<close> otherwise.
  Flag words are non-negative Python ints (\<open>int.from_bytes\<close> of two bytes, or the OR of
  two such).
\<close>

definition flagged :: "field_spec \<Rightarrow> nat \<Rightarrow> bool" where
  "flagged f flags = (if f_when_clear f then flags AND f_mask f = 0 else flags AND f_mask f \<noteq> 0)"

text \<open>
  Lines 116-146: what decoding a resistance value does to the shared dictionaries. The
  result carries the dictionaries as they are when the statement raises or returns.
\<close>

definition track_resistance ::
  "int \<Rightarrow> resistance_tracking \<Rightarrow> test_results \<Rightarrow> error option \<times> resistance_tracking \<times> test_results" where
  "track_resistance resistance rt tr =
     (case last_resistance rt of
        Missing \<Rightarrow> (Some KeyError, rt, tr)
      | IsNone \<Rightarrow> (None, rt\<lparr>last_resistance := Val resistance\<rparr>, tr)
      | Val old \<Rightarrow>
          if resistance \<noteq> old then
            let rt1 = rt\<lparr>resistance_change_detected := Val True\<rparr> in
            if truthy (resistance_command_pending rt1) then
              (case last_command_type rt1 of
                 IsNone \<Rightarrow> (Some TypeError, rt1, tr)
               | ct \<Rightarrow>
                   let command_type = (case ct of Val s \<Rightarrow> s | _ \<Rightarrow> ''Unknown'');
                       tr1 = (if str_contains ''SET_RESISTANCE_LEVEL'' command_type
                              then tr\<lparr>resistance_control := Val True\<rparr>
                              else if str_contains ''SET_SIM_PARAMS'' command_type
                              then tr\<lparr>sim_mode_support := Val True\<rparr>
                              else tr);
                       rt2 = rt1\<lparr>resistance_command_pending := Val False,
                                  last_command_type := IsNone\<rparr>
                   in (None, rt2\<lparr>last_resistance := Val resistance\<rparr>, tr1))
            else (None, rt1\<lparr>last_resistance := Val resistance\<rparr>, tr)
          else (None, rt\<lparr>last_resistance := Val resistance\<rparr>, tr))"

text \<open>
  The decoder's running state: the cursor \<open>index\<close>, the local \<open>detected_fields\<close>, and
  the two shared dictionaries.
\<close>

type_synonym cursor = "nat \<times> fields \<times> resistance_tracking \<times> test_results"

text \<open>
  One \<open>if flags & mask:\<close> block. A flagged field whose bytes are not all there is
  passed over; the resistance block also runs the tracking code before it advances.
\<close>

definition decode_field :: "field_spec \<Rightarrow> byte list \<Rightarrow> nat \<Rightarrow> cursor \<Rightarrow> error option \<times> cursor" where
  "decode_field f data flags c =
     (case c of (index, detected, rt, tr) \<Rightarrow>
        if flagged f flags then
          if index + f_width f \<le> length data then
            (case read_value (f_codec f) data index (f_width f) of
               Inl e \<Rightarrow> (Some e, c)
             | Inr v \<Rightarrow>
                 let detected' = AList.update (f_key f) v detected in
                 if f_key f = ''resistance'' then
                   (case v of
                      IntV r \<Rightarrow>
                        (case track_resistance r rt tr of
                           (Some e, rt', tr') \<Rightarrow> (Some e, index, detected', rt', tr')
                         | (None, rt', tr') \<Rightarrow> (None, index + f_width f, detected', rt', tr'))
                    | FloatV q \<Rightarrow> (None, index + f_width f, detected', rt, tr))
                 else (None, index + f_width f, detected', rt, tr))
          else (None, c)
        else (None, c))"

fun run_fields :: "field_spec list \<Rightarrow> byte list \<Rightarrow> nat \<Rightarrow> cursor \<Rightarrow> error option \<times> cursor" where
  "run_fields [] data flags c = (None, c)"
| "run_fields (f # fs) data flags c =
     (case decode_field f data flags c of
        (Some e, c') \<Rightarrow> (Some e, c')
      | (None, c') \<Rightarrow> run_fields fs data flags c')"

text \<open>
  \<open>process_indoor_bike_data(data, flags)\<close> with the two dictionaries it reads and
  writes passed in and handed back: the returned mapping (or the exception), and the
  dictionaries afterwards.
\<close>

definition decoder_result ::
  "error option \<times> cursor \<Rightarrow> (error + fields) \<times> resistance_tracking \<times> test_results" where
  "decoder_result r =
     (case r of
        (Some e, index, detected, rt', tr') \<Rightarrow> (Inl e, rt', tr')
      | (None, index, detected, rt', tr') \<Rightarrow> (Inr detected, rt', tr'))"

definition process_indoor_bike_data ::
  "byte list \<Rightarrow> nat \<Rightarrow> resistance_tracking \<Rightarrow> test_results
     \<Rightarrow> (error + fields) \<times> resistance_tracking \<times> test_results" where
  "process_indoor_bike_data data flags rt tr =
     decoder_result (run_fields field_table data flags (2, [], rt, tr))"

text \<open>The sixth row of the table, the block of lines 111-147.\<close>

definition resistance_row :: field_spec where
  "resistance_row = \<lparr>f_mask = 0x20, f_when_clear = False, f_width = 2, f_key = ''resistance'', f_codec = Signed_int\<rparr>"

text \<open>
  A row reads its single indexed byte only behind a guard that asks for at least one
  byte (the heart-rate block: \<open>index + 1 <= len(data)\<close> before \<open>data[index]\<close>).
\<close>

definition row_ok :: "field_spec \<Rightarrow> bool" where
  "row_ok f = (f_codec f \<noteq> Single_byte \<or> 0 < f_width f)"

text \<open>
  The state the tracking code needs in order not to raise: \<open>last_resistance\<close> is a key
  of the dictionary, and a pending command has its name recorded. The dictionary of
  is\_yafit\_interactive.py starts so, and \<open>send_control_command\<close> and the decoder
  keep it so.
\<close>

definition tracking_ready :: "resistance_tracking \<Rightarrow> bool" where
  "tracking_ready rt =
     (last_resistance rt \<noteq> Missing
      \<and> \<not> (truthy (resistance_command_pending rt) \<and> last_command_type rt = IsNone))"

section \<open>Command correlation: send\_control\_command (device\_test.py)\<close>

definition resistance_related_commands :: "string list" where
  "resistance_related_commands = [''SET_RESISTANCE_LEVEL'', ''SET_TARGET_POWER'', ''SET_SIM_PARAMS'']"

text \<open>
  What \<open>send_control_command\<close> does to \<open>resistance_tracking\<close> before it writes to
  the device; \<open>now\<close> is the value of \<open>time.time()\<close>.
\<close>

definition send_control_command ::
  "string \<Rightarrow> int option \<Rightarrow> rat \<Rightarrow> resistance_tracking \<Rightarrow> resistance_tracking" where
  "send_control_command command_name expected now rt =
     (if list_ex (\<lambda>cmd. str_contains cmd command_name) resistance_related_commands then
        let rt1 = rt\<lparr>resistance_command_pending := Val True,
                      last_command_type := Val command_name,
                      command_sent_time := Val now\<rparr>
        in (case expected of None \<Rightarrow> rt1 | Some e \<Rightarrow> rt1\<lparr>expected_resistance := Val e\<rparr>)
      else rt)"

text \<open>
  The control-point branch of \<open>notification_handler\<close> (lines 209-248), without the
  enclosing \<open>try\<close>: the acknowledgement \<open>[0x80, opcode, result, ...]\<close> is entered in
  the command ledger, and a successful resistance-related one is marked pending.
\<close>

definition hex_digit :: "nat \<Rightarrow> char" where
  "hex_digit n = ''0123456789abcdef'' ! (n mod 16)"

definition command_name_of :: "byte \<Rightarrow> string" where
  "command_name_of request_opcode =
     (if request_opcode = 0x00 then ''REQUEST_CONTROL''
      else if request_opcode = 0x01 then ''RESET''
      else if request_opcode = 0x04 then ''SET_RESISTANCE_LEVEL''
      else if request_opcode = 0x05 then ''SET_TARGET_POWER''
      else if request_opcode = 0x07 then ''START''
      else if request_opcode = 0x08 then ''STOP''
      else if request_opcode = 0x11 then ''SET_SIM_PARAMS''
      else ''UNKNOWN_0x'' @ [hex_digit (unat request_opcode div 16), hex_digit (unat request_opcode)])"

definition control_point_response ::
  "byte list \<Rightarrow> resistance_tracking \<Rightarrow> test_results
     \<Rightarrow> error option \<times> resistance_tracking \<times> test_results" where
  "control_point_response data rt tr =
     (if 3 \<le> length data then
        let request_opcode = data ! 1;
            result_code = data ! 2;
            command_name = command_name_of request_opcode
        in
        case control_commands_tested tr of
          Missing \<Rightarrow> (Some KeyError, rt, tr)
        | IsNone \<Rightarrow> (Some TypeError, rt, tr)
        | Val ledger \<Rightarrow>
            let tr1 = tr\<lparr>control_commands_tested :=
                           Val (AList.update command_name (result_code = 0x01) ledger)\<rparr>
            in
            if result_code = 0x01 \<and> request_opcode \<in> set [0x04, 0x05, 0x11]
            then (None, rt\<lparr>resistance_command_pending := Val True,
                            last_command_type := Val command_name\<rparr>, tr1)
            else (None, rt, tr1)
      else (None, rt, tr))"

section \<open>The merge buffer (data\_handler.py)\<close>

record packet_buffer =
  buf_data :: "byte list option"
  buf_flags :: "nat option"
  buf_detected_fields :: fields

definition empty_buffer :: packet_buffer where
  "empty_buffer = \<lparr>buf_data = None, buf_flags = None, buf_detected_fields = []\<rparr>"

fun can_merge_packets :: "nat option \<Rightarrow> nat option \<Rightarrow> bool" where
  "can_merge_packets (Some flags1) (Some flags2) = (flags1 AND flags2 = 0)"
| "can_merge_packets _ _ = False"

text \<open>\<open>n.to_bytes(2, byteorder='little')\<close>.\<close>

definition to_bytes2_le :: "nat \<Rightarrow> error + byte list" where
  "to_bytes2_le n =
     (if n < 65536 then Inr [word_of_nat (n mod 256), word_of_nat (n div 256)]
      else Inl OverflowError)"

text \<open>
  The slice assignment \<open>merged_data[0:2] = ...\<close> replaces the first two bytes of a copy
  of \<open>data1\<close> (or all of it, when it is shorter); \<open>data2[2:]\<close> follows.
\<close>

definition merge_packet_data ::
  "byte list \<Rightarrow> nat \<Rightarrow> fields \<Rightarrow> byte list \<Rightarrow> nat \<Rightarrow> fields \<Rightarrow> error + (byte list \<times> nat)" where
  "merge_packet_data data1 flags1 fields1 data2 flags2 fields2 =
     (let merged_flags = flags1 OR flags2 in
      case to_bytes2_le merged_flags of
        Inl e \<Rightarrow> Inl e
      | Inr prefix2 \<Rightarrow>
          let merged_data = prefix2 @ drop 2 data1;
              merged_data' = (if 2 < length data2 then merged_data @ drop 2 data2 else merged_data)
          in Inr (merged_data', merged_flags))"

text \<open>\<open>test_results['data_fields_detected'].update(detected_fields)\<close>.\<close>

definition finalize_packet_processing :: "fields \<Rightarrow> test_results \<Rightarrow> error + test_results" where
  "finalize_packet_processing detected tr =
     (case data_fields_detected tr of
        Missing \<Rightarrow> Inl KeyError
      | IsNone \<Rightarrow> Inl AttributeError
      | Val d \<Rightarrow> Inr (tr\<lparr>data_fields_detected := Val (dict_update d detected)\<rparr>))"

definition cleanup_packet_buffer ::
  "packet_buffer \<Rightarrow> test_results \<Rightarrow> error option \<times> packet_buffer \<times> test_results" where
  "cleanup_packet_buffer buf tr =
     (case buf_data buf of
        None \<Rightarrow> (None, buf, tr)
      | Some d \<Rightarrow>
          (case finalize_packet_processing (buf_detected_fields buf) tr of
             Inl e \<Rightarrow> (Some e, buf, tr)
           | Inr tr' \<Rightarrow> (None, empty_buffer, tr')))"

text \<open>
  The Indoor Bike Data branch of \<open>notification_handler\<close> (lines 250-295), without the
  enclosing \<open>try\<close>: the exception it would hand to the \<open>except\<close> clause, and the
  three pieces of shared state afterwards.
\<close>

type_synonym session = "resistance_tracking \<times> test_results \<times> packet_buffer"

definition bike_data_notification :: "byte list \<Rightarrow> session \<Rightarrow> error option \<times> session" where
  "bike_data_notification data s =
     (let rt = fst s; tr = fst (snd s); buf = snd (snd s);
          flags = from_bytes_le (slice data 0 2);
          hold = (\<lambda>current. \<lparr>buf_data = Some data, buf_flags = Some flags,
                              buf_detected_fields = current\<rparr>)
      in
      (case process_indoor_bike_data data flags rt tr of
         (Inl e, rt1, tr1) \<Rightarrow> (Some e, rt1, tr1, buf)
       | (Inr current_fields, rt1, tr1) \<Rightarrow>
           (case buf_data buf of
              None \<Rightarrow> (None, rt1, tr1, hold current_fields)
            | Some data1 \<Rightarrow>
                if can_merge_packets (buf_flags buf) (Some flags) then
                  (case merge_packet_data data1 (case buf_flags buf of Some f \<Rightarrow> f | None \<Rightarrow> 0)
                          (buf_detected_fields buf) data flags current_fields of
                     Inl e \<Rightarrow> (Some e, rt1, tr1, buf)
                   | Inr (merged_data, merged_flags) \<Rightarrow>
                       (case process_indoor_bike_data merged_data merged_flags rt1 tr1 of
                          (Inl e, rt2, tr2) \<Rightarrow> (Some e, rt2, tr2, buf)
                        | (Inr merged_fields, rt2, tr2) \<Rightarrow>
                            (case finalize_packet_processing merged_fields tr2 of
                               Inl e \<Rightarrow> (Some e, rt2, tr2, buf)
                             | Inr tr3 \<Rightarrow> (None, rt2, tr3, empty_buffer))))
                else
                  (case finalize_packet_processing (buf_detected_fields buf) tr1 of
                     Inl e \<Rightarrow> (Some e, rt1, tr1, buf)
                   | Inr tr2 \<Rightarrow> (None, rt1, tr2, hold current_fields)))))"

section \<open>The classifier: analyze\_test\_results (analyze\_result.py)\<close>

text \<open>\<open>str.lower()\<close> on the ASCII letters (the service entries are UUID strings).\<close>

definition lower_char :: "char \<Rightarrow> char" where
  "lower_char c =
     (let n = (of_char c :: nat) in if 65 \<le> n \<and> n \<le> 90 then char_of (n + 32) else c)"

definition str_lower :: "string \<Rightarrow> string" where
  "str_lower s = map lower_char s"

definition has_csc_service :: "string list \<Rightarrow> bool" where
  "has_csc_service svcs =
     list_ex (\<lambda>service. str_contains ''1816'' (str_lower service)
                \<or> str_contains ''cycling_speed_and_cadence'' (str_lower service)) svcs"

text \<open>\<open>d.get(k, False)\<close> on a dictionary of booleans.\<close>

definition get_flag :: "(string \<times> bool) list \<Rightarrow> string \<Rightarrow> bool" where
  "get_flag d k = (case map_of d k of None \<Rightarrow> False | Some b \<Rightarrow> b)"

text \<open>\<open>k in d\<close> on a dictionary.\<close>

definition has_key :: "string \<Rightarrow> fields \<Rightarrow> bool" where
  "has_key k d = (k \<in> set (map fst d))"

definition anomaly_text :: string where
  "anomaly_text = ''Resistance changed without any resistance-related command''"

definition verdict :: "level \<Rightarrow> reason list \<Rightarrow> test_results \<Rightarrow> test_results" where
  "verdict l rs tr = tr\<lparr>compatibility_level := Val l, reasons := Val rs\<rparr>"

text \<open>
  Lines 111-150, the detailed analysis for the standard full protocol. None of its
  lookups can raise once line 81 has passed.
\<close>

definition analyze_ftms :: "test_results \<Rightarrow> test_results" where
  "analyze_ftms tr =
     (let detected_fields = (case data_fields_detected tr of Val d \<Rightarrow> d | _ \<Rightarrow> []);
          has_speed_and_cadence = (has_key ''speed'' detected_fields \<and> has_key ''cadence'' detected_fields);
          sim_working = truthy (sim_mode_support tr)
      in
      if has_speed_and_cadence \<and> sim_working
      then verdict Full [Speed_cadence_and_sim_ok] tr
      else if has_speed_and_cadence \<and> \<not> sim_working then
        let issues = (case issues_found tr of Val l \<Rightarrow> l | _ \<Rightarrow> []) in
        if list_ex (str_contains anomaly_text) issues
        then verdict Partial_Fixable [Resistance_changes_by_itself] tr
        else verdict Partial [Sim_mode_not_supported] tr
      else if \<not> has_speed_and_cadence
      then verdict Impossible [Speed_or_cadence_not_detected] tr
      else verdict Impossible [Basic_requirements_not_met] tr)"

text \<open>
  Lines 89-109, the dispatch on \<open>protocol_type\<close> (a missing key reads as the empty
  string, which like \<open>None\<close> is in neither list).
\<close>

definition analyze_protocol :: "test_results \<Rightarrow> test_results" where
  "analyze_protocol tr =
     (case protocol_type tr of
        Val MOBI_custom \<Rightarrow>
          verdict Unverifiable_Custom_Protocol [Custom_protocol_unverifiable MOBI_custom] tr
      | Val REBORN_custom \<Rightarrow>
          verdict Unverifiable_Custom_Protocol [Custom_protocol_unverifiable REBORN_custom] tr
      | Val TACX_custom \<Rightarrow>
          verdict Unverifiable_Custom_Protocol [Custom_protocol_unverifiable TACX_custom] tr
      | Val CSC_standard \<Rightarrow> verdict Partial [CSC_speed_cadence_only] tr
      | Val FTMS_standard \<Rightarrow> analyze_ftms tr
      | _ \<Rightarrow> verdict Impossible [Unsupported_protocol] tr)"

text \<open>
  Lines 40-77: a CSC service among the device's services, or a CSC feature flag.
\<close>

definition has_csc_sensor :: "test_results \<Rightarrow> bool" where
  "has_csc_sensor tr =
     (let svcs = (case device_info tr of
                    Val di \<Rightarrow> (case services di of Val l \<Rightarrow> l | _ \<Rightarrow> [])
                  | _ \<Rightarrow> []);
          features = (case features_supported tr of Val f \<Rightarrow> f | _ \<Rightarrow> []);
          has_csc_features = (get_flag features ''CSC Measurement'' \<or> get_flag features ''CSC Feature'')
      in has_csc_service svcs \<or> has_csc_features)"

text \<open>
  The body of the outer \<open>try\<close> from the connection check on (lines 31-152). The one
  statement that can raise on a record of this type is \<open>'speed' in None\<close> (line 81),
  before anything is written.
\<close>

definition analyze_body :: "test_results \<Rightarrow> error + test_results" where
  "analyze_body tr =
     (if \<not> truthy (connection_status tr) then Inr (verdict Impossible [Connection_failed] tr)
      else
        case data_fields_detected tr of
          IsNone \<Rightarrow> Inl TypeError
        | slot \<Rightarrow>
            let detected = (case slot of Val d \<Rightarrow> d | _ \<Rightarrow> []);
                has_essential_data_fields = (has_key ''speed'' detected \<and> has_key ''cadence'' detected)
            in
            if \<not> (has_csc_sensor tr \<or> has_essential_data_fields)
            then Inr (verdict Impossible [Essential_data_not_found] tr)
            else Inr (analyze_protocol tr))"

text \<open>
  \<open>analyze_test_results(test_results)\<close>: the caller's object after the call (\<open>None\<close>
  when the caller passed \<open>None\<close>). On \<open>not test_results\<close> the function binds its own
  local name to a fresh dictionary and returns, so the caller's object is as it was.
  The \<open>except\<close> clause writes the verdict for whatever the body raised.
\<close>

definition analyze_test_results :: "test_results option \<Rightarrow> test_results option" where
  "analyze_test_results arg =
     (case arg of
        None \<Rightarrow> None
      | Some tr \<Rightarrow>
          if tr = empty_results then Some tr
          else (case analyze_body tr of
                  Inr tr' \<Rightarrow> Some tr'
                | Inl e \<Rightarrow> Some (verdict Impossible [Analysis_error e] tr)))"

text \<open>The spec's closed enumeration of verdicts.\<close>

fun in_enumeration :: "level \<Rightarrow> bool" where
  "in_enumeration (Unlisted s) = False"
| "in_enumeration _ = True"

text \<open>
  The anomaly list holds an entry about a resistance change without a command: the
  classifier's own test on \<open>issues_found\<close>.
\<close>

definition anomaly_recorded :: "test_results \<Rightarrow> bool" where
  "anomaly_recorded tr =
     (case issues_found tr of Val l \<Rightarrow> list_ex (str_contains anomaly_text) l | _ \<Rightarrow> False)"

text \<open>
  What the spec asks of the classifier's output: the record is the input with exactly one
  verdict of the enumeration and a non-empty list of reasons written into it.
\<close>

definition settled :: "test_results \<Rightarrow> test_results \<Rightarrow> bool" where
  "settled tr tr' =
     (\<exists>l rs. tr' = tr\<lparr>compatibility_level := Val l, reasons := Val rs\<rparr>
        \<and> in_enumeration l \<and> rs \<noteq> [])"

definition settled_or_raised :: "test_results \<Rightarrow> error + test_results \<Rightarrow> bool" where
  "settled_or_raised tr r = (case r of Inl e \<Rightarrow> True | Inr tr' \<Rightarrow> settled tr tr')"

section \<open>How the decoder walks the table\<close>

lemma run_fields_append:
  "run_fields (xs @ ys) data flags c =
     (case run_fields xs data flags c of
        (Some e, c') \<Rightarrow> (Some e, c')
      | (None, c') \<Rightarrow> run_fields ys data flags c')"
  by (induction xs arbitrary: c) (auto split: prod.splits option.splits)

lemma has_key_update: "has_key k (AList.update k' v d) = (k = k' \<or> has_key k d)"
  by (auto simp: has_key_def dom_update)

lemma decode_field_keys:
  assumes "decode_field f data flags (i, d, rt, tr) = (e, i', d', rt', tr')"
  shows "has_key k d' \<Longrightarrow> k = f_key f \<or> has_key k d"
  using assms
  by (auto simp: decode_field_def has_key_update Let_def
      split: if_splits sum.splits val.splits prod.splits option.splits)

lemma run_fields_keys:
  assumes "run_fields fs data flags (i, d, rt, tr) = (e, i', d', rt', tr')"
    and "has_key k d'"
  shows "k \<in> f_key ` set fs \<or> has_key k d"
  using assms
proof (induction fs arbitrary: i d rt tr)
  case Nil
  then show ?case by simp
next
  case (Cons f fs)
  obtain e1 i1 d1 rt1 tr1 where st: "decode_field f data flags (i, d, rt, tr) = (e1, i1, d1, rt1, tr1)"
    by (metis prod_cases5)
  show ?case
  proof (cases e1)
    case None
    with Cons.prems st have "run_fields fs data flags (i1, d1, rt1, tr1) = (e, i', d', rt', tr')"
      by simp
    from Cons.IH[OF this Cons.prems(2)] decode_field_keys[OF st] show ?thesis by auto
  next
    case (Some a)
    with Cons.prems st have "d' = d1" by simp
    with Cons.prems(2) decode_field_keys[OF st] show ?thesis by auto
  qed
qed

lemma field_table_distinct: "distinct (map f_key field_table)"
  by (simp add: field_table_def)


lemma decode_field_truncated:
  "flagged f flags \<Longrightarrow> length data < index + f_width f \<Longrightarrow>
   decode_field f data flags (index, detected, rt, tr) = (None, index, detected, rt, tr)"
  by (simp add: decode_field_def)

text \<open>
  C9. A flagged field whose declared width exceeds the bytes left at the cursor is passed
  over without an exception and with the cursor, the mapping and the shared state as
  they were; the rest of the decoder then runs from that same offset, and the mapping
  finally returned has no entry for the field. Here \<open>pre\<close> are the blocks before the
  field's block and \<open>post\<close> the blocks after it.
\<close>

theorem truncated_field_skipped:
  assumes table: "field_table = pre @ f # post"
    and before: "run_fields pre data flags (2, [], rt, tr) = (None, index, detected, rt1, tr1)"
    and present: "flagged f flags"
    and short: "length data < index + f_width f"
  shows "decode_field f data flags (index, detected, rt1, tr1) = (None, index, detected, rt1, tr1)
       \<and> process_indoor_bike_data data flags rt tr
           = decoder_result (run_fields post data flags (index, detected, rt1, tr1))
       \<and> (\<forall>result. fst (process_indoor_bike_data data flags rt tr) = Inr result
             \<longrightarrow> \<not> has_key (f_key f) result)"
proof -
  have skip: "decode_field f data flags (index, detected, rt1, tr1) = (None, index, detected, rt1, tr1)"
    using present short by (rule decode_field_truncated)
  have whole: "process_indoor_bike_data data flags rt tr
      = decoder_result (run_fields post data flags (index, detected, rt1, tr1))"
    by (simp add: process_indoor_bike_data_def table run_fields_append before skip)
  have absent: "\<not> has_key (f_key f) result"
    if res: "fst (process_indoor_bike_data data flags rt tr) = Inr result" for result
  proof
    assume hk: "has_key (f_key f) result"
    obtain e i' d' rt' tr' where post: "run_fields post data flags (index, detected, rt1, tr1) = (e, i', d', rt', tr')"
      by (metis prod_cases5)
    from res whole post have "d' = result"
      by (cases e) (simp_all add: decoder_result_def)
    with run_fields_keys[OF post] hk have "f_key f \<in> f_key ` set post \<or> has_key (f_key f) detected"
      by simp
    moreover from run_fields_keys[OF before] have "has_key (f_key f) detected \<Longrightarrow> f_key f \<in> f_key ` set pre"
      by (auto simp: has_key_def)
    moreover have "f_key f \<notin> f_key ` set pre" "f_key f \<notin> f_key ` set post"
      using field_table_distinct unfolding table by auto
    ultimately show False by blast
  qed
  from skip whole absent show ?thesis by blast
qed

text \<open>
  The notification \<open>04 00 64 00\<close>: speed takes the two payload bytes, and the flagged
  cadence field finds none left.
\<close>

theorem truncated_field_skipped_witness:
  "field_table = take 2 field_table @ (field_table ! 2) # drop 3 field_table
   \<and> run_fields (take 2 field_table) [0x04, 0x00, 0x64, 0x00] 0x0004 (2, [], initial_tracking, initial_results)
       = (None, 4, [(''speed'', FloatV 1)], initial_tracking, initial_results)
   \<and> flagged (field_table ! 2) 0x0004
   \<and> length [0x04, 0x00, 0x64, 0x00 :: byte] < 4 + f_width (field_table ! 2)
   \<and> f_key (field_table ! 2) = ''cadence''
   \<and> decode_field (field_table ! 2) [0x04, 0x00, 0x64, 0x00] 0x0004
        (4, [(''speed'', FloatV 1)], initial_tracking, initial_results)
       = (None, 4, [(''speed'', FloatV 1)], initial_tracking, initial_results)
   \<and> \<not> has_key ''cadence'' [(''speed'', FloatV 1)]
   \<and> fst (process_indoor_bike_data [0x04, 0x00, 0x64, 0x00] 0x0004 initial_tracking initial_results)
       = Inr [(''speed'', FloatV 1)]"
proof -
  have t: "field_table = take 2 field_table @ (field_table ! 2) # drop 3 field_table"
    by (simp add: field_table_def)
  have b: "run_fields (take 2 field_table) [0x04, 0x00, 0x64, 0x00] 0x0004 (2, [], initial_tracking, initial_results)
       = (None, 4, [(''speed'', FloatV 1)], initial_tracking, initial_results)"
    by (simp add: field_table_def decode_field_def flagged_def slice_def)
  have p: "flagged (field_table ! 2) 0x0004"
    by (simp add: field_table_def flagged_def)
  have s: "length [0x04, 0x00, 0x64, 0x00 :: byte] < 4 + f_width (field_table ! 2)"
    by (simp add: field_table_def)
  have k: "f_key (field_table ! 2) = ''cadence''"
    by (simp add: field_table_def)
  have r: "fst (process_indoor_bike_data [0x04, 0x00, 0x64, 0x00] 0x0004 initial_tracking initial_results)
       = Inr [(''speed'', FloatV 1)]"
    by (simp add: process_indoor_bike_data_def decoder_result_def field_table_def decode_field_def flagged_def slice_def)
  from truncated_field_skipped[OF t b p s] t b p s k r show ?thesis
    by (simp add: has_key_def)
qed

section \<open>The decoder on the spec's examples\<close>

text \<open>
  C2, as stated: decoding flag word 0x0004 with bytes \<open>04 00 64 00\<close> would give exactly
  the cadence field with value 50.0. It does not: bit 0 is clear, so the speed block
  takes the two payload bytes.
\<close>

theorem cadence_example_counterexample:
  "fst (process_indoor_bike_data [0x04, 0x00, 0x64, 0x00] 0x0004 initial_tracking initial_results)
     \<noteq> Inr [(''cadence'', FloatV 50)]"
  by (simp add: process_indoor_bike_data_def decoder_result_def field_table_def
      decode_field_def flagged_def slice_def)

text \<open>
  C2, amended: flag word 0x0004 with bytes \<open>04 00 64 00\<close> decodes to exactly the
  speed field with value 1.0 (0x0064 / 100), the cadence field being skipped for lack of
  bytes; it is flag word 0x0005 with bytes \<open>05 00 64 00\<close> that decodes to exactly the
  cadence field with value 50.0. Neither call changes the shared state.
\<close>

theorem cadence_example:
  "process_indoor_bike_data [0x04, 0x00, 0x64, 0x00] 0x0004 rt tr = (Inr [(''speed'', FloatV 1)], rt, tr)
   \<and> process_indoor_bike_data [0x05, 0x00, 0x64, 0x00] 0x0005 rt tr
       = (Inr [(''cadence'', FloatV 50)], rt, tr)"
  by (simp add: process_indoor_bike_data_def decoder_result_def field_table_def
      decode_field_def flagged_def slice_def)

section \<open>State read and written by the decoder\<close>

text \<open>The equations that evaluate the decoder on a concrete notification.\<close>

lemmas decoder_eval = process_indoor_bike_data_def decoder_result_def field_table_def
  decode_field_def flagged_def slice_def from_bytes_le_signed_def track_resistance_def
  initial_tracking_def send_control_command_def resistance_related_commands_def

lemma decode_field_other:
  assumes "f_key f \<noteq> ''resistance''"
    and "decode_field f data flags (i, d, rt, tr) = (e, i', d', rt', tr')"
  shows "rt' = rt \<and> tr' = tr \<and> map_of d' ''resistance'' = map_of d ''resistance''"
  using assms
  by (auto simp: decode_field_def Let_def update_conv'
      split: if_splits sum.splits prod.splits option.splits)

lemma run_fields_other:
  assumes "\<forall>f \<in> set fs. f_key f \<noteq> ''resistance''"
    and "run_fields fs data flags (i, d, rt, tr) = (e, i', d', rt', tr')"
  shows "rt' = rt \<and> tr' = tr \<and> map_of d' ''resistance'' = map_of d ''resistance''"
  using assms
proof (induction fs arbitrary: i d)
  case Nil
  then show ?case by simp
next
  case (Cons f fs)
  obtain e1 i1 d1 rt1 tr1 where st: "decode_field f data flags (i, d, rt, tr) = (e1, i1, d1, rt1, tr1)"
    by (metis prod_cases5)
  from Cons.prems(1) have fk: "f_key f \<noteq> ''resistance''" by simp
  note one = decode_field_other[OF fk st]
  show ?case
  proof (cases e1)
    case None
    with Cons.prems st one have "run_fields fs data flags (i1, d1, rt, tr) = (e, i', d', rt', tr')"
      by simp
    from Cons.IH[OF _ this] Cons.prems(1) one show ?thesis by simp
  next
    case (Some a)
    with Cons.prems st one show ?thesis by simp
  qed
qed

lemma field_table_split:
  "field_table = take 5 field_table @ resistance_row # drop 6 field_table"
  by (simp add: field_table_def resistance_row_def)

lemma others_before: "\<forall>f \<in> set (take 5 field_table). f_key f \<noteq> ''resistance''"
  by (simp add: field_table_def)

lemma others_after: "\<forall>f \<in> set (drop 6 field_table). f_key f \<noteq> ''resistance''"
  by (simp add: field_table_def)

lemma decode_resistance_row:
  assumes "decode_field resistance_row data flags (i, d, rt, tr) = (None, i', d', rt', tr')"
    and "map_of d ''resistance'' = None"
  shows "(case map_of d' ''resistance'' of
            None \<Rightarrow> rt' = rt \<and> tr' = tr
          | Some v \<Rightarrow> \<exists>r. v = IntV r \<and> track_resistance r rt tr = (None, rt', tr'))"
  using assms
  by (auto simp: decode_field_def resistance_row_def Let_def update_conv'
      split: if_splits sum.splits prod.splits option.splits val.splits)

lemma process_tracking:
  assumes "process_indoor_bike_data data flags rt tr = (Inr detected, rt', tr')"
  shows "(case map_of detected ''resistance'' of
            None \<Rightarrow> rt' = rt \<and> tr' = tr
          | Some v \<Rightarrow> \<exists>r. v = IntV r \<and> track_resistance r rt tr = (None, rt', tr'))"
proof -
  obtain e1 i1 d1 rt1 tr1 where a: "run_fields (take 5 field_table) data flags (2, [], rt, tr) = (e1, i1, d1, rt1, tr1)"
    by (metis prod_cases5)
  obtain e2 i2 d2 rt2 tr2 where b: "decode_field resistance_row data flags (i1, d1, rt1, tr1) = (e2, i2, d2, rt2, tr2)"
    by (metis prod_cases5)
  obtain e3 i3 d3 rt3 tr3 where c: "run_fields (drop 6 field_table) data flags (i2, d2, rt2, tr2) = (e3, i3, d3, rt3, tr3)"
    by (metis prod_cases5)
  have run: "run_fields field_table data flags (2, [], rt, tr)
      = (case e1 of Some e \<Rightarrow> (Some e, i1, d1, rt1, tr1)
         | None \<Rightarrow> (case e2 of Some e \<Rightarrow> (Some e, i2, d2, rt2, tr2)
                     | None \<Rightarrow> (e3, i3, d3, rt3, tr3)))"
    by (subst field_table_split) (simp add: run_fields_append a b c split: option.splits)
  from assms have ok: "e1 = None" "e2 = None" "e3 = None" "d3 = detected" "rt3 = rt'" "tr3 = tr'"
    unfolding process_indoor_bike_data_def run decoder_result_def
    by (auto split: option.splits)
  from run_fields_other[OF others_before a] have A: "rt1 = rt" "tr1 = tr" "map_of d1 ''resistance'' = None"
    by simp_all
  from run_fields_other[OF others_after c] have C: "rt3 = rt2" "tr3 = tr2" "map_of d3 ''resistance'' = map_of d2 ''resistance''"
    by simp_all
  from decode_resistance_row[OF b[unfolded ok(2)] A(3)] show ?thesis
    using A C ok by (auto split: option.splits)
qed


lemma field_table_rows_ok: "\<forall>f \<in> set field_table. row_ok f"
  by (simp add: field_table_def row_ok_def)

lemma read_value_guarded:
  assumes "row_ok f" and "index + f_width f \<le> length data"
  shows "\<exists>v. read_value (f_codec f) data index (f_width f) = Inr v"
  using assms by (cases "f_codec f") (auto simp: row_ok_def)

lemma track_resistance_ready:
  assumes "tracking_ready rt"
  shows "\<exists>rt' tr'. track_resistance r rt tr = (None, rt', tr') \<and> tracking_ready rt'"
  using assms
  by (auto simp: track_resistance_def tracking_ready_def Let_def split: entry.splits)

lemma track_resistance_no_index_error: "fst (track_resistance r rt tr) \<noteq> Some IndexError"
  by (auto simp: track_resistance_def Let_def split: entry.splits)

lemma decode_field_ready:
  assumes "row_ok f" and "tracking_ready rt"
  shows "\<exists>i' d' rt' tr'. decode_field f data flags (i, d, rt, tr) = (None, i', d', rt', tr')
           \<and> tracking_ready rt'"
proof (cases "flagged f flags \<and> i + f_width f \<le> length data")
  case False
  with assms(2) show ?thesis by (auto simp: decode_field_def)
next
  case True
  with read_value_guarded[OF assms(1)] obtain v
    where v: "read_value (f_codec f) data i (f_width f) = Inr v" by blast
  show ?thesis
  proof (cases "f_key f = ''resistance''")
    case False
    with True v assms(2) show ?thesis by (simp add: decode_field_def Let_def)
  next
    case key: True
    show ?thesis
    proof (cases v)
      case (IntV r)
      from track_resistance_ready[OF assms(2), of r tr] obtain rt' tr'
        where "track_resistance r rt tr = (None, rt', tr')" "tracking_ready rt'" by blast
      with True v key IntV show ?thesis by (simp add: decode_field_def Let_def)
    next
      case (FloatV q)
      with True v key assms(2) show ?thesis by (simp add: decode_field_def Let_def)
    qed
  qed
qed

lemma decode_field_no_index_error:
  assumes "row_ok f"
  shows "fst (decode_field f data flags (i, d, rt, tr)) \<noteq> Some IndexError"
proof (cases "flagged f flags \<and> i + f_width f \<le> length data")
  case False
  then show ?thesis by (auto simp: decode_field_def)
next
  case True
  with read_value_guarded[OF assms] obtain v
    where v: "read_value (f_codec f) data i (f_width f) = Inr v" by blast
  have "e \<noteq> IndexError" if "track_resistance r rt tr = (Some e, rt', tr')" for r e rt' tr'
    using track_resistance_no_index_error[of r rt tr] that by auto
  then show ?thesis
    using True v
    by (auto simp: decode_field_def Let_def split: val.splits prod.splits option.splits)
qed

lemma run_fields_ready:
  assumes "\<forall>f \<in> set fs. row_ok f" and "tracking_ready rt"
  shows "\<exists>i' d' rt' tr'. run_fields fs data flags (i, d, rt, tr) = (None, i', d', rt', tr')
           \<and> tracking_ready rt'"
  using assms
proof (induction fs arbitrary: i d rt tr)
  case Nil
  then show ?case by simp
next
  case (Cons f fs)
  from Cons.prems have "row_ok f" by simp
  from decode_field_ready[OF this Cons.prems(2)] obtain i1 d1 rt1 tr1
    where one: "decode_field f data flags (i, d, rt, tr) = (None, i1, d1, rt1, tr1)"
      and r1: "tracking_ready rt1" by blast
  from Cons.prems have "\<forall>f \<in> set fs. row_ok f" by simp
  from Cons.IH[OF this r1] one show ?case by simp
qed

lemma run_fields_no_index_error:
  assumes "\<forall>f \<in> set fs. row_ok f"
  shows "fst (run_fields fs data flags c) \<noteq> Some IndexError"
  using assms
proof (induction fs arbitrary: c)
  case Nil
  then show ?case by simp
next
  case (Cons f fs)
  obtain i d rt tr where c: "c = (i, d, rt, tr)" by (metis prod_cases4)
  obtain e1 c1 where one: "decode_field f data flags (i, d, rt, tr) = (e1, c1)" by (metis surj_pair)
  from Cons.prems have "row_ok f" by simp
  from decode_field_no_index_error[OF this, of data flags i d rt tr] one
  have e1: "e1 \<noteq> Some IndexError" by simp
  from Cons.prems have rest: "\<forall>f \<in> set fs. row_ok f" by simp
  show ?case
  proof (cases e1)
    case None
    with c one Cons.IH[OF rest, of c1] show ?thesis by simp
  next
    case (Some e)
    with c one e1 show ?thesis by simp
  qed
qed

text \<open>The writers of the tracking dictionary keep it ready.\<close>

lemma initial_tracking_ready: "tracking_ready initial_tracking"
  by (simp add: tracking_ready_def initial_tracking_def)

lemma send_control_command_ready:
  "tracking_ready rt \<Longrightarrow> tracking_ready (send_control_command name expected now rt)"
  by (auto simp: tracking_ready_def send_control_command_def Let_def split: option.splits)

lemma control_point_response_ready:
  assumes "tracking_ready rt" and "control_point_response data rt tr = (e, rt', tr')"
  shows "tracking_ready rt'"
  using assms
  by (auto simp: tracking_ready_def control_point_response_def Let_def
      split: if_splits entry.splits)

text \<open>
  C10, as stated: for every byte sequence and flag word the decoder would return a field
  mapping. On the bare \<open>{}\<close> that data\_handler.py starts \<open>resistance_tracking\<close>
  with, a notification that carries a resistance level raises KeyError at line 117.
\<close>

theorem decoder_total_counterexample:
  "fst (process_indoor_bike_data [0x21, 0x00, 0x08, 0x00] 0x0021 empty_tracking empty_results)
     = Inl KeyError"
  by (simp add: process_indoor_bike_data_def decoder_result_def field_table_def
      decode_field_def flagged_def slice_def from_bytes_le_signed_def track_resistance_def
      empty_tracking_def)

text \<open>
  C10, amended: for every byte sequence (also one shorter than two bytes), every flag
  word and every state the decoder never raises IndexError: every read is behind a
  remaining-length check. With the tracking dictionary initialised (\<open>tracking_ready\<close>:
  it has the key \<open>last_resistance\<close>, and a pending command has its name recorded) the
  call returns a field mapping, and leaves the dictionary initialised for the next call.
\<close>

theorem decoder_total:
  "fst (process_indoor_bike_data data flags rt tr) \<noteq> Inl IndexError
   \<and> (tracking_ready rt \<longrightarrow>
        (\<exists>detected rt' tr'. process_indoor_bike_data data flags rt tr = (Inr detected, rt', tr')
           \<and> tracking_ready rt'))"
proof
  obtain e c where r: "run_fields field_table data flags (2, [], rt, tr) = (e, c)" by (metis surj_pair)
  obtain i d rt' tr' where c: "c = (i, d, rt', tr')" by (metis prod_cases4)
  from run_fields_no_index_error[OF field_table_rows_ok, of data flags "(2, [], rt, tr)"] r
  have "e \<noteq> Some IndexError" by simp
  with r c show "fst (process_indoor_bike_data data flags rt tr) \<noteq> Inl IndexError"
    by (cases e) (auto simp: process_indoor_bike_data_def decoder_result_def)
next
  show "tracking_ready rt \<longrightarrow>
        (\<exists>detected rt' tr'. process_indoor_bike_data data flags rt tr = (Inr detected, rt', tr')
           \<and> tracking_ready rt')"
  proof
    assume "tracking_ready rt"
    from run_fields_ready[OF field_table_rows_ok this, of data flags 2 "[]" tr]
    show "\<exists>detected rt' tr'. process_indoor_bike_data data flags rt tr = (Inr detected, rt', tr')
           \<and> tracking_ready rt'"
      by (auto simp: process_indoor_bike_data_def decoder_result_def)
  qed
qed

text \<open>
  Three bytes with flag word 0x0200: the speed block finds one byte where it needs two
  and is passed over, the heart-rate block reads that byte. The empty byte sequence
  decodes to the empty mapping.
\<close>

theorem decoder_total_witness:
  "fst (process_indoor_bike_data [0x00, 0x02, 0x48] 0x0200 initial_tracking initial_results) \<noteq> Inl IndexError
   \<and> tracking_ready initial_tracking
   \<and> process_indoor_bike_data [0x00, 0x02, 0x48] 0x0200 initial_tracking initial_results
       = (Inr [(''heart_rate'', IntV 72)], initial_tracking, initial_results)
   \<and> fst (process_indoor_bike_data [] 0xFFFE initial_tracking initial_results) = Inr []"
proof -
  have a: "process_indoor_bike_data [0x00, 0x02, 0x48] 0x0200 initial_tracking initial_results
       = (Inr [(''heart_rate'', IntV 72)], initial_tracking, initial_results)"
    by (simp add: process_indoor_bike_data_def decoder_result_def field_table_def
        decode_field_def flagged_def slice_def)
  have b: "fst (process_indoor_bike_data [] 0xFFFE initial_tracking initial_results) = Inr []"
    by (simp add: process_indoor_bike_data_def decoder_result_def field_table_def
        decode_field_def flagged_def slice_def)
  from decoder_total[of "[0x00, 0x02, 0x48]" "0x0200" initial_tracking initial_results]
    initial_tracking_ready a b
  show ?thesis by simp
qed







text \<open>
  C6. A resistance-related command is pending (its name recorded in
  \<open>last_command_type\<close>) and the decoder reads a resistance value different from the
  last one: then \<open>resistance_control\<close> is set for SET\_RESISTANCE\_LEVEL,
  \<open>sim_mode_support\<close> for SET\_SIM\_PARAMS, neither for SET\_TARGET\_POWER, nothing
  else in \<open>test_results\<close> changes (in particular \<open>issues_found\<close>), and the pending
  state is cleared.
\<close>

theorem command_confirms_capability:
  assumes decoded: "process_indoor_bike_data data flags rt tr = (Inr detected, rt', tr')"
    and observed: "map_of detected ''resistance'' = Some (IntV v)"
    and last: "last_resistance rt = Val old"
    and differs: "v \<noteq> old"
    and pending: "truthy (resistance_command_pending rt)"
    and kind: "last_command_type rt = Val kind"
    and related: "kind \<in> set resistance_related_commands"
  shows "tr' = (if kind = ''SET_RESISTANCE_LEVEL'' then tr\<lparr>resistance_control := Val True\<rparr>
                else if kind = ''SET_SIM_PARAMS'' then tr\<lparr>sim_mode_support := Val True\<rparr>
                else tr)
       \<and> resistance_command_pending rt' = Val False
       \<and> last_command_type rt' = IsNone
       \<and> last_resistance rt' = Val v
       \<and> issues_found tr' = issues_found tr"
proof -
  from process_tracking[OF decoded] observed
  have t: "track_resistance v rt tr = (None, rt', tr')" by simp
  from related have "kind = ''SET_RESISTANCE_LEVEL'' \<or> kind = ''SET_TARGET_POWER'' \<or> kind = ''SET_SIM_PARAMS''"
    by (simp add: resistance_related_commands_def)
  then show ?thesis
  proof (elim disjE)
    assume "kind = ''SET_RESISTANCE_LEVEL''"
    with t last differs pending kind show ?thesis
      by (auto simp: track_resistance_def Let_def)
  next
    assume "kind = ''SET_TARGET_POWER''"
    with t last differs pending kind show ?thesis
      by (auto simp: track_resistance_def Let_def)
  next
    assume "kind = ''SET_SIM_PARAMS''"
    with t last differs pending kind show ?thesis
      by (auto simp: track_resistance_def Let_def)
  qed
qed


text \<open>
  The spec's scenario: resistance 5 is seen, SET\_RESISTANCE\_LEVEL is sent and
  acknowledged with success, resistance 8 is seen.
\<close>

theorem command_confirms_capability_witness:
  "process_indoor_bike_data [0x21, 0x00, 0x05, 0x00] 0x0021 initial_tracking initial_results
     = (Inr [(''resistance'', IntV 5)], initial_tracking\<lparr>last_resistance := Val 5\<rparr>, initial_results)
   \<and> send_control_command ''SET_RESISTANCE_LEVEL'' None 0 (initial_tracking\<lparr>last_resistance := Val 5\<rparr>)
     = initial_tracking\<lparr>last_resistance := Val 5, resistance_command_pending := Val True,
         last_command_type := Val ''SET_RESISTANCE_LEVEL'', command_sent_time := Val 0\<rparr>
   \<and> control_point_response [0x80, 0x04, 0x01]
        (initial_tracking\<lparr>last_resistance := Val 5, resistance_command_pending := Val True,
           last_command_type := Val ''SET_RESISTANCE_LEVEL'', command_sent_time := Val 0\<rparr>)
        initial_results
     = (None,
        initial_tracking\<lparr>last_resistance := Val 5, resistance_command_pending := Val True,
           last_command_type := Val ''SET_RESISTANCE_LEVEL'', command_sent_time := Val 0\<rparr>,
        initial_results\<lparr>control_commands_tested := Val [(''SET_RESISTANCE_LEVEL'', True)]\<rparr>)
   \<and> ''SET_RESISTANCE_LEVEL'' \<in> set resistance_related_commands
   \<and> (8::int) \<noteq> 5
   \<and> process_indoor_bike_data [0x21, 0x00, 0x08, 0x00] 0x0021
        (initial_tracking\<lparr>last_resistance := Val 5, resistance_command_pending := Val True,
           last_command_type := Val ''SET_RESISTANCE_LEVEL'', command_sent_time := Val 0\<rparr>)
        (initial_results\<lparr>control_commands_tested := Val [(''SET_RESISTANCE_LEVEL'', True)]\<rparr>)
     = (Inr [(''resistance'', IntV 8)],
        initial_tracking\<lparr>last_resistance := Val 8, resistance_change_detected := Val True,
           command_sent_time := Val 0\<rparr>,
        initial_results\<lparr>control_commands_tested := Val [(''SET_RESISTANCE_LEVEL'', True)],
           resistance_control := Val True\<rparr>)
   \<and> issues_found (initial_results\<lparr>control_commands_tested := Val [(''SET_RESISTANCE_LEVEL'', True)],
           resistance_control := Val True\<rparr>) = Val []"
proof -
  let ?rt = "initial_tracking\<lparr>last_resistance := Val 5, resistance_command_pending := Val True,
           last_command_type := Val ''SET_RESISTANCE_LEVEL'', command_sent_time := Val 0\<rparr>"
  let ?tr = "initial_results\<lparr>control_commands_tested := Val [(''SET_RESISTANCE_LEVEL'', True)]\<rparr>"
  have first: "process_indoor_bike_data [0x21, 0x00, 0x05, 0x00] 0x0021 initial_tracking initial_results
     = (Inr [(''resistance'', IntV 5)], initial_tracking\<lparr>last_resistance := Val 5\<rparr>, initial_results)"
    by (simp add: decoder_eval)
  have sent: "send_control_command ''SET_RESISTANCE_LEVEL'' None 0 (initial_tracking\<lparr>last_resistance := Val 5\<rparr>) = ?rt"
    by (simp add: decoder_eval)
  have acked: "control_point_response [0x80, 0x04, 0x01] ?rt initial_results = (None, ?rt, ?tr)"
    by (simp add: control_point_response_def command_name_of_def initial_results_def
        initial_tracking_def Let_def)
  have decoded: "process_indoor_bike_data [0x21, 0x00, 0x08, 0x00] 0x0021 ?rt ?tr
     = (Inr [(''resistance'', IntV 8)],
        initial_tracking\<lparr>last_resistance := Val 8, resistance_change_detected := Val True,
           command_sent_time := Val 0\<rparr>,
        ?tr\<lparr>resistance_control := Val True\<rparr>)"
    by (simp add: decoder_eval)
  have observed: "map_of [(''resistance'', IntV 8)] ''resistance'' = Some (IntV 8)" by simp
  have last: "last_resistance ?rt = Val 5" by simp
  have differs: "(8::int) \<noteq> 5" by simp
  have pending: "truthy (resistance_command_pending ?rt)" by simp
  have kind: "last_command_type ?rt = Val ''SET_RESISTANCE_LEVEL''" by simp
  have related: "''SET_RESISTANCE_LEVEL'' \<in> set resistance_related_commands"
    by (simp add: resistance_related_commands_def)
  from command_confirms_capability[OF decoded observed last differs pending kind related]
    first sent acked decoded related
  show ?thesis by (simp add: initial_results_def)
qed

text \<open>
  C3. What the code does when a resistance value differs from the last one and no command
  is pending: it records the change in the tracking dictionary and writes two log lines.
  \<open>test_results\<close> is untouched: \<open>resistance_control\<close> is unchanged, and nothing is
  appended to \<open>issues_found\<close>, where the classifier looks for the anomaly.
\<close>

theorem unexpected_change_only_logged:
  assumes decoded: "process_indoor_bike_data data flags rt tr = (Inr detected, rt', tr')"
    and observed: "map_of detected ''resistance'' = Some (IntV v)"
    and last: "last_resistance rt = Val old"
    and differs: "v \<noteq> old"
    and idle: "\<not> truthy (resistance_command_pending rt)"
  shows "issues_found tr' = issues_found tr
       \<and> resistance_control tr' = resistance_control tr
       \<and> tr' = tr
       \<and> rt' = rt\<lparr>resistance_change_detected := Val True, last_resistance := Val v\<rparr>"
proof -
  from process_tracking[OF decoded] observed
  have "track_resistance v rt tr = (None, rt', tr')" by simp
  with last differs idle show ?thesis
    by (auto simp: track_resistance_def Let_def)
qed

text \<open>
  Resistance 5, then 8, no command sent: \<open>issues_found\<close> is still empty.
\<close>

theorem unexpected_change_only_logged_witness:
  "process_indoor_bike_data [0x21, 0x00, 0x08, 0x00] 0x0021
        (initial_tracking\<lparr>last_resistance := Val 5\<rparr>) initial_results
     = (Inr [(''resistance'', IntV 8)],
        initial_tracking\<lparr>last_resistance := Val 8, resistance_change_detected := Val True\<rparr>,
        initial_results)
   \<and> map_of [(''resistance'', IntV 8)] ''resistance'' = Some (IntV 8)
   \<and> last_resistance (initial_tracking\<lparr>last_resistance := Val 5\<rparr>) = Val 5
   \<and> (8::int) \<noteq> 5
   \<and> \<not> truthy (resistance_command_pending (initial_tracking\<lparr>last_resistance := Val 5\<rparr>))
   \<and> issues_found initial_results = Val []"
proof -
  let ?rt = "initial_tracking\<lparr>last_resistance := Val 5\<rparr>"
  have decoded: "process_indoor_bike_data [0x21, 0x00, 0x08, 0x00] 0x0021 ?rt initial_results
     = (Inr [(''resistance'', IntV 8)],
        initial_tracking\<lparr>last_resistance := Val 8, resistance_change_detected := Val True\<rparr>,
        initial_results)"
    by (simp add: decoder_eval)
  have observed: "map_of [(''resistance'', IntV 8)] ''resistance'' = Some (IntV 8)" by simp
  have last: "last_resistance ?rt = Val 5" by simp
  have differs: "(8::int) \<noteq> 5" by simp
  have idle: "\<not> truthy (resistance_command_pending ?rt)" by (simp add: initial_tracking_def)
  from unexpected_change_only_logged[OF decoded observed last differs idle] decoded idle
  show ?thesis by (simp add: initial_results_def)
qed

text \<open>
  C1. Two notifications with disjoint flag words, each complete for its own flags: cadence
  50.0 under 0x0005, and speed 100.0 with average speed 100.0 under 0x0002. The merged
  record has flag word 0x0007, whose set bit 0 says that no speed field is present, so
  decoding it yields average speed 1.0 and cadence 5000.0 instead of the union of the
  two mappings.
\<close>

theorem merge_loses_fields:
  "can_merge_packets (Some 0x0005) (Some 0x0002)
   \<and> fst (process_indoor_bike_data [0x05, 0x00, 0x64, 0x00] 0x0005 rt tr) = Inr [(''cadence'', FloatV 50)]
   \<and> fst (process_indoor_bike_data [0x02, 0x00, 0x10, 0x27, 0x10, 0x27] 0x0002 rt tr)
       = Inr [(''speed'', FloatV 100), (''avg_speed'', FloatV 100)]
   \<and> merge_packet_data [0x05, 0x00, 0x64, 0x00] 0x0005 [(''cadence'', FloatV 50)]
        [0x02, 0x00, 0x10, 0x27, 0x10, 0x27] 0x0002 [(''speed'', FloatV 100), (''avg_speed'', FloatV 100)]
       = Inr ([0x07, 0x00, 0x64, 0x00, 0x10, 0x27, 0x10, 0x27], 0x0007)
   \<and> fst (process_indoor_bike_data [0x07, 0x00, 0x64, 0x00, 0x10, 0x27, 0x10, 0x27] 0x0007 rt tr)
       = Inr [(''avg_speed'', FloatV 1), (''cadence'', FloatV 5000)]
   \<and> dict_update [(''cadence'', FloatV 50)] [(''speed'', FloatV 100), (''avg_speed'', FloatV 100)]
       = [(''cadence'', FloatV 50), (''speed'', FloatV 100), (''avg_speed'', FloatV 100)]
   \<and> map_of [(''avg_speed'', FloatV 1), (''cadence'', FloatV 5000)]
       \<noteq> map_of [(''cadence'', FloatV 50), (''speed'', FloatV 100), (''avg_speed'', FloatV 100)]"
proof -
  have "map_of [(''avg_speed'', FloatV 1), (''cadence'', FloatV 5000)] ''speed''
      \<noteq> map_of [(''cadence'', FloatV 50), (''speed'', FloatV 100), (''avg_speed'', FloatV 100)] ''speed''"
    by simp
  then have "map_of [(''avg_speed'', FloatV 1), (''cadence'', FloatV 5000)]
       \<noteq> map_of [(''cadence'', FloatV 50), (''speed'', FloatV 100), (''avg_speed'', FloatV 100)]"
    by metis
  then show ?thesis
    by (simp add: decoder_eval merge_packet_data_def to_bytes2_le_def dict_update_def)
qed

text \<open>
  The same two notifications through the handler: the second is merged with the held
  first, and the record ends up with the misread fields and without the speed.
\<close>

lemma merged_notifications_recorded:
  "bike_data_notification [0x02, 0x00, 0x10, 0x27, 0x10, 0x27]
     (initial_tracking, initial_results,
      \<lparr>buf_data = Some [0x05, 0x00, 0x64, 0x00], buf_flags = Some 0x0005,
        buf_detected_fields = [(''cadence'', FloatV 50)]\<rparr>)
   = (None, initial_tracking,
      initial_results\<lparr>data_fields_detected := Val [(''avg_speed'', FloatV 1), (''cadence'', FloatV 5000)]\<rparr>,
      empty_buffer)"
  by (simp add: bike_data_notification_def decoder_eval merge_packet_data_def to_bytes2_le_def
      finalize_packet_processing_def dict_update_def initial_results_def)

section \<open>Teardown of the merge buffer\<close>

lemma map_of_dict_update:
  "map_of (dict_update d other) = map_of d ++ map_of (rev other)"
  unfolding dict_update_def
proof (induction other arbitrary: d)
  case Nil
  then show ?case by simp
next
  case (Cons kv other)
  let ?step = "\<lambda>kv acc. AList.update (fst kv) (snd kv) acc"
  have "map_of (fold ?step (kv # other) d) = map_of (fold ?step other (AList.update (fst kv) (snd kv) d))"
    by simp
  also have "\<dots> = map_of (AList.update (fst kv) (snd kv) d) ++ map_of (rev other)"
    by (rule Cons.IH)
  also have "\<dots> = (map_of d)(fst kv \<mapsto> snd kv) ++ map_of (rev other)"
    by (simp only: update_conv')
  also have "\<dots> = map_of d ++ map_of (rev (kv # other))"
    by (cases kv) (simp add: map_add_assoc[symmetric])
  finally show ?case .
qed

lemma map_of_rev_distinct: "distinct (map fst xs) \<Longrightarrow> map_of (rev xs) = map_of xs"
  by (rule map_of_inject_set[THEN iffD2]) (simp_all add: rev_map[symmetric])

text \<open>Every mapping the decoder returns has one value per key.\<close>

lemma decode_field_distinct:
  assumes "decode_field f data flags (i, d, rt, tr) = (e, i', d', rt', tr')"
    and "distinct (map fst d)"
  shows "distinct (map fst d')"
  using assms
  by (auto simp: decode_field_def Let_def distinct_update
      split: if_splits sum.splits val.splits prod.splits option.splits)

lemma run_fields_distinct:
  assumes "run_fields fs data flags (i, d, rt, tr) = (e, i', d', rt', tr')"
    and "distinct (map fst d)"
  shows "distinct (map fst d')"
  using assms
proof (induction fs arbitrary: i d rt tr)
  case Nil
  then show ?case by simp
next
  case (Cons f fs)
  obtain e1 i1 d1 rt1 tr1 where st: "decode_field f data flags (i, d, rt, tr) = (e1, i1, d1, rt1, tr1)"
    by (metis prod_cases5)
  note d1 = decode_field_distinct[OF st Cons.prems(2)]
  show ?case
  proof (cases e1)
    case None
    with Cons.prems st have "run_fields fs data flags (i1, d1, rt1, tr1) = (e, i', d', rt', tr')"
      by simp
    from Cons.IH[OF this d1] show ?thesis .
  next
    case (Some a)
    with Cons.prems st d1 show ?thesis by simp
  qed
qed

lemma decoder_keys_distinct:
  assumes "process_indoor_bike_data data flags rt tr = (Inr detected, rt', tr')"
  shows "distinct (map fst detected)"
proof -
  obtain e i d rt1 tr1 where r: "run_fields field_table data flags (2, [], rt, tr) = (e, i, d, rt1, tr1)"
    by (metis prod_cases5)
  from run_fields_distinct[OF r] have "distinct (map fst d)" by simp
  with assms r show ?thesis
    by (cases e) (simp_all add: process_indoor_bike_data_def decoder_result_def)
qed

text \<open>
  C8, as stated: at teardown with a held notification its decoded fields would always
  reach the detected-field mapping and the buffer would be emptied. With the
  \<open>test_results = {}\<close> that data\_handler.py itself starts with, a first notification
  is held, and teardown then raises KeyError: nothing is recorded and the buffer still
  holds the notification.
\<close>

theorem teardown_flushes_buffer_counterexample:
  "bike_data_notification [0x05, 0x00, 0x64, 0x00] (empty_tracking, empty_results, empty_buffer)
     = (None, empty_tracking, empty_results,
        \<lparr>buf_data = Some [0x05, 0x00, 0x64, 0x00], buf_flags = Some 0x0005,
          buf_detected_fields = [(''cadence'', FloatV 50)]\<rparr>)
   \<and> cleanup_packet_buffer
        \<lparr>buf_data = Some [0x05, 0x00, 0x64, 0x00], buf_flags = Some 0x0005,
          buf_detected_fields = [(''cadence'', FloatV 50)]\<rparr> empty_results
     = (Some KeyError,
        \<lparr>buf_data = Some [0x05, 0x00, 0x64, 0x00], buf_flags = Some 0x0005,
          buf_detected_fields = [(''cadence'', FloatV 50)]\<rparr>,
        empty_results)
   \<and> data_fields_detected empty_results = Missing"
  by (simp add: bike_data_notification_def process_indoor_bike_data_def decoder_result_def
      field_table_def decode_field_def flagged_def slice_def empty_buffer_def
      cleanup_packet_buffer_def finalize_packet_processing_def empty_results_def)

text \<open>
  C8, amended: at teardown with a held notification, and with a detected-field mapping
  present in \<open>test_results\<close> (as the session set-up installs it),
  \<open>cleanup_packet_buffer\<close> raises nothing, writes the held notification's decoded
  fields over the detected-field mapping (every held key with its held value, every
  other key as it was), and empties the buffer. The held fields have one value per key,
  as every mapping the decoder returns has.
\<close>

theorem teardown_flushes_buffer:
  assumes held: "buf_data buf = Some raw"
    and mapping: "data_fields_detected tr = Val d"
    and keys: "distinct (map fst (buf_detected_fields buf))"
  shows "\<exists>d'. cleanup_packet_buffer buf tr = (None, empty_buffer, tr\<lparr>data_fields_detected := Val d'\<rparr>)
           \<and> map_of d' = map_of d ++ map_of (buf_detected_fields buf)
           \<and> buf_data empty_buffer = None"
proof (intro exI[of _ "dict_update d (buf_detected_fields buf)"] conjI)
  show "cleanup_packet_buffer buf tr
      = (None, empty_buffer, tr\<lparr>data_fields_detected := Val (dict_update d (buf_detected_fields buf))\<rparr>)"
    using held mapping by (simp add: cleanup_packet_buffer_def finalize_packet_processing_def)
  show "map_of (dict_update d (buf_detected_fields buf)) = map_of d ++ map_of (buf_detected_fields buf)"
    using keys by (simp add: map_of_dict_update map_of_rev_distinct)
  show "buf_data empty_buffer = None" by (simp add: empty_buffer_def)
qed

text \<open>
  A first notification is held by the handler; teardown then records its cadence field.
\<close>

theorem teardown_flushes_buffer_witness:
  "bike_data_notification [0x05, 0x00, 0x64, 0x00] (initial_tracking, initial_results, empty_buffer)
     = (None, initial_tracking, initial_results,
        \<lparr>buf_data = Some [0x05, 0x00, 0x64, 0x00], buf_flags = Some 0x0005,
          buf_detected_fields = [(''cadence'', FloatV 50)]\<rparr>)
   \<and> data_fields_detected initial_results = Val []
   \<and> distinct (map fst [(''cadence'', FloatV 50)])
   \<and> cleanup_packet_buffer
        \<lparr>buf_data = Some [0x05, 0x00, 0x64, 0x00], buf_flags = Some 0x0005,
          buf_detected_fields = [(''cadence'', FloatV 50)]\<rparr> initial_results
     = (None, empty_buffer, initial_results\<lparr>data_fields_detected := Val [(''cadence'', FloatV 50)]\<rparr>)"
proof -
  let ?buf = "\<lparr>buf_data = Some [0x05, 0x00, 0x64, 0x00 :: byte], buf_flags = Some 0x0005,
          buf_detected_fields = [(''cadence'', FloatV 50)]\<rparr>"
  have n: "bike_data_notification [0x05, 0x00, 0x64, 0x00] (initial_tracking, initial_results, empty_buffer)
     = (None, initial_tracking, initial_results, ?buf)"
    by (simp add: bike_data_notification_def decoder_eval empty_buffer_def)
  have held: "buf_data ?buf = Some [0x05, 0x00, 0x64, 0x00]" by simp
  have mapping: "data_fields_detected initial_results = Val []" by (simp add: initial_results_def)
  have keys: "distinct (map fst (buf_detected_fields ?buf))" by simp
  have c: "cleanup_packet_buffer ?buf initial_results
     = (None, empty_buffer, initial_results\<lparr>data_fields_detected := Val [(''cadence'', FloatV 50)]\<rparr>)"
    by (simp add: cleanup_packet_buffer_def finalize_packet_processing_def dict_update_def
        initial_results_def)
  from teardown_flushes_buffer[OF held mapping keys] n mapping c show ?thesis by simp
qed

section \<open>The classifier\<close>

lemma connected_not_empty: "truthy (connection_status tr) \<Longrightarrow> tr \<noteq> empty_results"
  by (auto simp: empty_results_def)

text \<open>
  C7. Connection established, standard full (FTMS) protocol, speed and cadence both
  among the detected fields: the classifier writes \<open>compatibility_level\<close> FULL when
  \<open>sim_mode_support\<close> holds; otherwise PARTIAL\_FIXABLE when the anomaly list has a
  resistance-changed-without-command entry, and PARTIAL when it has none. It writes the
  one matching reason, and nothing else in the record changes.
\<close>

theorem ftms_verdict:
  assumes connected: "truthy (connection_status tr)"
    and ftms: "protocol_type tr = Val FTMS_standard"
    and detected: "data_fields_detected tr = Val d"
    and speed: "has_key ''speed'' d"
    and cadence: "has_key ''cadence'' d"
  shows "\<exists>tr'. analyze_test_results (Some tr) = Some tr'
           \<and> compatibility_level tr' =
                Val (if truthy (sim_mode_support tr) then Full
                     else if anomaly_recorded tr then Partial_Fixable
                     else Partial)
           \<and> reasons tr' =
                Val [if truthy (sim_mode_support tr) then Speed_cadence_and_sim_ok
                     else if anomaly_recorded tr then Resistance_changes_by_itself
                     else Sim_mode_not_supported]
           \<and> tr' = tr\<lparr>compatibility_level := compatibility_level tr', reasons := reasons tr'\<rparr>"
proof -
  have body: "analyze_body tr =
           Inr (if truthy (sim_mode_support tr) then verdict Full [Speed_cadence_and_sim_ok] tr
                 else if anomaly_recorded tr then verdict Partial_Fixable [Resistance_changes_by_itself] tr
                 else verdict Partial [Sim_mode_not_supported] tr)"
    using connected ftms detected speed cadence
    by (cases "issues_found tr")
       (simp_all add: analyze_body_def analyze_protocol_def analyze_ftms_def anomaly_recorded_def Let_def)
  with connected_not_empty[OF connected] show ?thesis
    by (simp add: analyze_test_results_def verdict_def)
qed

text \<open>
  The cases on a connected FTMS record with speed and cadence detected: no anomaly and no
  simulation mode, simulation mode confirmed, the anomaly recorded, and an anomaly list
  that holds only another entry.
\<close>

theorem ftms_verdict_witness:
  "(let tr = initial_results\<lparr>connection_status := Val True, protocol_type := Val FTMS_standard,
               data_fields_detected := Val [(''speed'', FloatV 1), (''cadence'', FloatV 50)]\<rparr>
    in truthy (connection_status tr)
       \<and> has_key ''speed'' [(''speed'', FloatV 1), (''cadence'', FloatV 50)]
       \<and> has_key ''cadence'' [(''speed'', FloatV 1), (''cadence'', FloatV 50)]
       \<and> analyze_test_results (Some tr)
           = Some (tr\<lparr>compatibility_level := Val Partial, reasons := Val [Sim_mode_not_supported]\<rparr>)
       \<and> analyze_test_results (Some (tr\<lparr>sim_mode_support := Val True\<rparr>))
           = Some (tr\<lparr>sim_mode_support := Val True, compatibility_level := Val Full,
                      reasons := Val [Speed_cadence_and_sim_ok]\<rparr>)
       \<and> analyze_test_results (Some (tr\<lparr>issues_found := Val [anomaly_text]\<rparr>))
           = Some (tr\<lparr>issues_found := Val [anomaly_text], compatibility_level := Val Partial_Fixable,
                      reasons := Val [Resistance_changes_by_itself]\<rparr>)
       \<and> analyze_test_results (Some (tr\<lparr>issues_found := Val [''Could not read FTMS features: timeout'']\<rparr>))
           = Some (tr\<lparr>issues_found := Val [''Could not read FTMS features: timeout''],
                      compatibility_level := Val Partial, reasons := Val [Sim_mode_not_supported]\<rparr>))"
proof -
  define d where "d = [(''speed'', FloatV 1), (''cadence'', FloatV 50)]"
  define tr where "tr = initial_results\<lparr>connection_status := Val True, protocol_type := Val FTMS_standard,
               data_fields_detected := Val d\<rparr>"
  define other where "other = ''Could not read FTMS features: timeout''"
  have speed: "has_key ''speed'' d" and cadence: "has_key ''cadence'' d"
    by (simp_all add: d_def has_key_def)
  have a: "truthy (connection_status tr)" "protocol_type tr = Val FTMS_standard"
    "data_fields_detected tr = Val d"
    by (simp_all add: tr_def)
  have s: "\<not> truthy (sim_mode_support tr)" "\<not> anomaly_recorded tr"
    by (simp_all add: tr_def initial_results_def anomaly_recorded_def)
  have b: "truthy (connection_status (tr\<lparr>sim_mode_support := Val True\<rparr>))"
    "protocol_type (tr\<lparr>sim_mode_support := Val True\<rparr>) = Val FTMS_standard"
    "data_fields_detected (tr\<lparr>sim_mode_support := Val True\<rparr>) = Val d"
    by (simp_all add: tr_def)
  have c: "truthy (connection_status (tr\<lparr>issues_found := Val [anomaly_text]\<rparr>))"
    "protocol_type (tr\<lparr>issues_found := Val [anomaly_text]\<rparr>) = Val FTMS_standard"
    "data_fields_detected (tr\<lparr>issues_found := Val [anomaly_text]\<rparr>) = Val d"
    by (simp_all add: tr_def)
  have t: "\<not> truthy (sim_mode_support (tr\<lparr>issues_found := Val [anomaly_text]\<rparr>))"
    "anomaly_recorded (tr\<lparr>issues_found := Val [anomaly_text]\<rparr>)"
    by (simp_all add: tr_def initial_results_def anomaly_recorded_def anomaly_text_def)
  have e: "truthy (connection_status (tr\<lparr>issues_found := Val [other]\<rparr>))"
    "protocol_type (tr\<lparr>issues_found := Val [other]\<rparr>) = Val FTMS_standard"
    "data_fields_detected (tr\<lparr>issues_found := Val [other]\<rparr>) = Val d"
    by (simp_all add: tr_def)
  have u: "\<not> truthy (sim_mode_support (tr\<lparr>issues_found := Val [other]\<rparr>))"
    "\<not> anomaly_recorded (tr\<lparr>issues_found := Val [other]\<rparr>)"
    by (simp_all add: tr_def initial_results_def anomaly_recorded_def anomaly_text_def other_def)
  from ftms_verdict[OF a speed cadence] s
  have r1: "analyze_test_results (Some tr)
      = Some (tr\<lparr>compatibility_level := Val Partial, reasons := Val [Sim_mode_not_supported]\<rparr>)"
    by auto
  from ftms_verdict[OF b speed cadence]
  have r2: "analyze_test_results (Some (tr\<lparr>sim_mode_support := Val True\<rparr>))
      = Some (tr\<lparr>sim_mode_support := Val True, compatibility_level := Val Full,
                 reasons := Val [Speed_cadence_and_sim_ok]\<rparr>)"
    by auto
  from ftms_verdict[OF c speed cadence] t
  have r3: "analyze_test_results (Some (tr\<lparr>issues_found := Val [anomaly_text]\<rparr>))
      = Some (tr\<lparr>issues_found := Val [anomaly_text], compatibility_level := Val Partial_Fixable,
                 reasons := Val [Resistance_changes_by_itself]\<rparr>)"
    by auto
  from ftms_verdict[OF e speed cadence] u
  have r4: "analyze_test_results (Some (tr\<lparr>issues_found := Val [other]\<rparr>))
      = Some (tr\<lparr>issues_found := Val [other], compatibility_level := Val Partial,
                 reasons := Val [Sim_mode_not_supported]\<rparr>)"
    by auto
  from r1 r2 r3 r4 a speed cadence show ?thesis
    unfolding Let_def tr_def[symmetric] d_def[symmetric] other_def[symmetric] by simp
qed

text \<open>
  C4. On the empty record the classifier returns at once: the defaults it builds go to
  its own local name, and the caller's record still has neither a verdict nor reasons.
\<close>

theorem classifier_skips_empty_record:
  "analyze_test_results (Some empty_results) = Some empty_results
   \<and> compatibility_level empty_results = Missing
   \<and> reasons empty_results = Missing"
  by (simp add: analyze_test_results_def empty_results_def)


lemma settled_verdict: "in_enumeration l \<Longrightarrow> settled_or_raised tr (Inr (verdict l [r] tr))"
  by (auto simp: settled_or_raised_def settled_def verdict_def)

lemma settled_raise: "settled_or_raised tr (Inl e)"
  by (simp add: settled_or_raised_def)

lemma settled_intro: "in_enumeration l \<Longrightarrow> settled tr (verdict l [r] tr)"
  by (auto simp: settled_def verdict_def)

lemma analyze_ftms_settled: "settled tr (analyze_ftms tr)"
  by (simp add: analyze_ftms_def Let_def settled_intro)

lemma analyze_protocol_settled: "settled tr (analyze_protocol tr)"
  by (simp add: analyze_protocol_def settled_intro analyze_ftms_settled
      split: entry.splits protocol.splits)

lemma analyze_body_settled: "settled_or_raised tr (analyze_body tr)"
  by (cases "data_fields_detected tr")
     (simp_all add: analyze_body_def Let_def settled_or_raised_def settled_intro analyze_protocol_settled)

text \<open>
  On every record that is not empty the classifier does write exactly one verdict of the
  enumeration and one reason, also when line 81 raises.
\<close>

lemma classifier_total_on_nonempty:
  assumes "tr \<noteq> empty_results"
  shows "\<exists>tr'. analyze_test_results (Some tr) = Some tr' \<and> settled tr tr'"
proof (cases "analyze_body tr")
  case (Inl e)
  with assms have "analyze_test_results (Some tr) = Some (verdict Impossible [Analysis_error e] tr)"
    by (simp add: analyze_test_results_def)
  then show ?thesis by (simp add: settled_intro)
next
  case (Inr tr')
  with analyze_body_settled[of tr] assms show ?thesis
    by (simp add: analyze_test_results_def settled_or_raised_def)
qed

end
